theory Spec2Isabelle
  imports Main
begin

section \<open>EchoLoop: the recorder/player screen and the permission-gated toggle\<close>

text \<open>
  The development embeds the two screens of the repository:
  \<^item> \<^verbatim>\<open>src/app/(tabs)/explore.tsx\<close>, the component \<^verbatim>\<open>Explore\<close> with
    \<^verbatim>\<open>formatMillis\<close>, \<^verbatim>\<open>startRecording\<close>, \<^verbatim>\<open>stopRecording\<close>,
    \<^verbatim>\<open>playRecording\<close>, its two status callbacks and its two buttons;
  \<^item> the second source file, the component \<^verbatim>\<open>App\<close> with \<^verbatim>\<open>toggleRecording\<close>.

  The React state cells and refs of a component are the fields of a record. The expo-av
  platform is outside the repository: what each awaited platform call does during one run
  of a function (resolve or reject, and the value it resolves to) is a parameter of that
  function. An \<^verbatim>\<open>async\<close> function is modelled by the list of component states at
  its suspension points (one entry per \<^verbatim>\<open>await\<close> reached, in order) followed by
  the state in which its promise settles; the settled state is the last entry.
  \<^verbatim>\<open>console.error\<close> writes diagnostics only and is not modelled; neither are the
  cleanup run when the component unmounts and the rendered view, apart from the handlers
  and the \<^verbatim>\<open>disabled\<close> flag of the two buttons.
\<close>

subsection \<open>Duration formatting\<close>

text \<open>
  The duration is a whole number of milliseconds, and \<^verbatim>\<open>number\<close> is \<open>int\<close> here.
  A \<^verbatim>\<open>number\<close> is a double: the integer arithmetic below is what the code computes
  only on the safe integers, those of magnitude at most \<^verbatim>\<open>Number.MAX_SAFE_INTEGER\<close>
  (\<open>2\<^sup>5\<^sup>3 - 1\<close>). There every integer is a double, the rounded quotient
  \<^verbatim>\<open>ms / 1000\<close> has the floor of the exact one, and
  \<^verbatim>\<open>Number.prototype.toString\<close> prints plain decimal digits (it switches to
  exponent notation from \<open>10\<^sup>2\<^sup>1\<close>). Beyond them the definitions say nothing
  about the code, and no statement below uses them there.
\<close>

definition MAX_SAFE_INTEGER :: int where
  "MAX_SAFE_INTEGER = 9007199254740991"

definition digit_char :: "nat \<Rightarrow> char" where
  "digit_char d =
     (if d = 0 then CHR ''0'' else if d = 1 then CHR ''1'' else if d = 2 then CHR ''2''
      else if d = 3 then CHR ''3'' else if d = 4 then CHR ''4'' else if d = 5 then CHR ''5''
      else if d = 6 then CHR ''6'' else if d = 7 then CHR ''7'' else if d = 8 then CHR ''8''
      else CHR ''9'')"

fun digits :: "nat \<Rightarrow> string" where
  "digits n = (if n < 10 then [digit_char n] else digits (n div 10) @ [digit_char (n mod 10)])"

declare digits.simps [simp del]

definition toString :: "int \<Rightarrow> string" where
  "toString i = (if i < 0 then CHR ''-'' # digits (nat (- i)) else digits (nat i))"

text \<open>
  \<^verbatim>\<open>String.prototype.padStart(targetLength, padString)\<close>: a string already long
  enough (or an empty pad) is returned as it is; otherwise the pad is repeated and cut to
  the missing length and put in front.
\<close>

definition padStart :: "nat \<Rightarrow> string \<Rightarrow> string \<Rightarrow> string" where
  "padStart targetLength padString str =
     (if targetLength \<le> length str \<or> padString = [] then str
      else take (targetLength - length str)
             (concat (replicate (targetLength - length str) padString)) @ str)"

text \<open>The remainder operator \<^verbatim>\<open>%\<close> of JavaScript takes the sign of the dividend.\<close>

definition js_rem :: "int \<Rightarrow> int \<Rightarrow> int" where
  "js_rem a b = sgn a * (\<bar>a\<bar> mod \<bar>b\<bar>)"

text \<open>\<^verbatim>\<open>Math.floor(x / k)\<close> on integers is the flooring \<open>div\<close> of \<open>int\<close>.\<close>

definition formatMillis :: "int \<Rightarrow> string" where
  "formatMillis ms =
     (let totalSec = ms div 1000;
          m = totalSec div 60;
          s = js_rem totalSec 60
      in toString m @ '':'' @ padStart 2 ''0'' (toString s))"

subsection \<open>The state of the recorder/player screen\<close>

type_synonym handle = nat

type_synonym alert = "string \<times> string"

text \<open>
  The eight cells of \<^verbatim>\<open>Explore\<close> (six \<^verbatim>\<open>useState\<close>, two \<^verbatim>\<open>useRef\<close>) and
  what the component has done to its environment: the alerts raised so far, the playback
  objects created by \<^verbatim>\<open>Audio.Sound.createAsync\<close> and not yet unloaded, and the
  identity of the next platform object (\<^verbatim>\<open>new Audio.Recording()\<close> and
  \<^verbatim>\<open>createAsync\<close> each yield a fresh one).
\<close>

record explore =
  isRecording :: bool
  isPreparing :: bool
  recordingUri :: "string option"
  recordingDurationMillis :: int
  recordingRef :: "handle option"
  playbackRef :: "handle option"
  isPlaying :: bool
  loadingPlay :: bool
  alerts :: "alert list"
  liveSounds :: "handle list"
  nextHandle :: handle

definition initial :: explore where
  "initial =
     \<lparr>isRecording = False, isPreparing = False, recordingUri = None,
      recordingDurationMillis = 0, recordingRef = None, playbackRef = None,
      isPlaying = False, loadingPlay = False, alerts = [], liveSounds = [], nextHandle = 0\<rparr>"

definition permission_alert :: alert where
  "permission_alert =
     (''Permission required'', ''Microphone permission is required to record audio.'')"

definition start_failed_alert :: alert where
  "start_failed_alert = (''Recording failed'', ''Could not start recording.'')"

definition stop_failed_alert :: alert where
  "stop_failed_alert = (''Stop failed'', ''Could not stop recording cleanly.'')"

definition playback_failed_alert :: alert where
  "playback_failed_alert = (''Playback failed'', ''Could not play recording.'')"

definition Alert_alert :: "alert \<Rightarrow> explore \<Rightarrow> explore" where
  "Alert_alert a s = s\<lparr>alerts := alerts s @ [a]\<rparr>"

text \<open>Truthiness of a \<^verbatim>\<open>string | null\<close>: \<^verbatim>\<open>null\<close> and the empty string are falsy.\<close>

definition truthy :: "string option \<Rightarrow> bool" where
  "truthy u = (case u of None \<Rightarrow> False | Some v \<Rightarrow> v \<noteq> [])"

subsection \<open>startRecording\<close>

datatype PermissionStatus = GRANTED | DENIED | UNDETERMINED

text \<open>
  What the platform does during one run of \<^verbatim>\<open>startRecording\<close>:
  \<^verbatim>\<open>requestPermissionsAsync\<close> resolves to a status or rejects (\<open>None\<close>); each of
  the three other awaited calls resolves (\<open>True\<close>) or rejects.
\<close>

record start_platform =
  requestPermissionsAsync :: "PermissionStatus option"
  setAudioModeAsync :: bool
  prepareToRecordAsync :: bool
  startAsync :: bool

definition start_finally :: "explore \<Rightarrow> explore" where
  "start_finally s = s\<lparr>isPreparing := False\<rparr>"

definition start_catch :: "explore \<Rightarrow> explore" where
  "start_catch s = start_finally (Alert_alert start_failed_alert s)"

definition startRecording_trace :: "start_platform \<Rightarrow> explore \<Rightarrow> explore list" where
  "startRecording_trace p s =
     (let s1 = s\<lparr>isPreparing := True\<rparr> in
      s1 #
      (case requestPermissionsAsync p of
         None \<Rightarrow> [start_catch s1]
       | Some status \<Rightarrow>
           if status \<noteq> GRANTED
           then [start_finally ((Alert_alert permission_alert s1)\<lparr>isPreparing := False\<rparr>)]
           else s1 #
             (if \<not> setAudioModeAsync p then [start_catch s1]
              else
                let s2 = s1\<lparr>recordingRef := Some (nextHandle s1),
                            nextHandle := Suc (nextHandle s1)\<rparr>
                in s2 #
                  (if \<not> prepareToRecordAsync p then [start_catch s2]
                   else s2 #
                     (if \<not> startAsync p then [start_catch s2]
                      else [start_finally (s2\<lparr>isRecording := True, recordingUri := None\<rparr>)])))))"

definition startRecording :: "start_platform \<Rightarrow> explore \<Rightarrow> explore" where
  "startRecording p s = last (startRecording_trace p s)"

text \<open>
  The subscriber given to \<^verbatim>\<open>setOnRecordingStatusUpdate\<close>; \<open>None\<close> is a status
  without \<^verbatim>\<open>durationMillis\<close>.
\<close>

record RecordingStatus =
  status_isRecording :: bool
  durationMillis :: "int option"

definition onRecordingStatusUpdate :: "RecordingStatus \<Rightarrow> explore \<Rightarrow> explore" where
  "onRecordingStatusUpdate status s =
     (if status_isRecording status
      then s\<lparr>recordingDurationMillis := (case durationMillis status of None \<Rightarrow> 0 | Some d \<Rightarrow> d)\<rparr>
      else s)"

subsection \<open>stopRecording\<close>

text \<open>
  \<^verbatim>\<open>stopAndUnloadAsync\<close> resolves or rejects; \<^verbatim>\<open>getURI\<close> returns a string or
  \<^verbatim>\<open>null\<close>.
\<close>

record stop_platform =
  stopAndUnloadAsync :: bool
  getURI :: "string option"

definition stop_finally :: "explore \<Rightarrow> explore" where
  "stop_finally s = s\<lparr>isPreparing := False\<rparr>"

definition stop_catch :: "explore \<Rightarrow> explore" where
  "stop_catch s = stop_finally (Alert_alert stop_failed_alert s)"

definition stopRecording_trace :: "stop_platform \<Rightarrow> explore \<Rightarrow> explore list" where
  "stopRecording_trace p s =
     (case recordingRef s of
        None \<Rightarrow> [stop_finally s]
      | Some recording \<Rightarrow>
          let s1 = s\<lparr>isPreparing := True\<rparr> in
          s1 #
          (if \<not> stopAndUnloadAsync p then [stop_catch s1]
           else [stop_finally
                   (s1\<lparr>recordingUri := getURI p,
                       isRecording := False,
                       recordingDurationMillis := recordingDurationMillis s1,
                       recordingRef := None\<rparr>)]))"

definition stopRecording :: "stop_platform \<Rightarrow> explore \<Rightarrow> explore" where
  "stopRecording p s = last (stopRecording_trace p s)"

subsection \<open>playRecording\<close>

text \<open>
  \<^verbatim>\<open>unloadAsync\<close> and \<^verbatim>\<open>createAsync\<close> each resolve or reject. A sound whose
  \<^verbatim>\<open>unloadAsync\<close> resolved is no longer live; one whose \<^verbatim>\<open>unloadAsync\<close>
  rejected is taken to be still live.
\<close>

record play_platform =
  unloadAsync :: bool
  createAsync :: bool

definition play_finally :: "explore \<Rightarrow> explore" where
  "play_finally s = s\<lparr>loadingPlay := False\<rparr>"

definition play_catch :: "explore \<Rightarrow> explore" where
  "play_catch s = play_finally ((Alert_alert playback_failed_alert s)\<lparr>isPlaying := False\<rparr>)"

definition play_create :: "play_platform \<Rightarrow> explore \<Rightarrow> explore list" where
  "play_create p s =
     s #
     (if \<not> createAsync p then [play_catch s]
      else [play_finally
              (s\<lparr>liveSounds := liveSounds s @ [nextHandle s],
                 nextHandle := Suc (nextHandle s),
                 playbackRef := Some (nextHandle s),
                 isPlaying := True\<rparr>)])"

definition playRecording_trace :: "play_platform \<Rightarrow> explore \<Rightarrow> explore list" where
  "playRecording_trace p s =
     (if \<not> truthy (recordingUri s) then [s]
      else
        let s1 = s\<lparr>loadingPlay := True\<rparr> in
        (case playbackRef s1 of
           Some previous \<Rightarrow>
             s1 #
             (if \<not> unloadAsync p then [play_catch s1]
              else play_create p
                     (s1\<lparr>liveSounds := removeAll previous (liveSounds s1),
                         playbackRef := None\<rparr>))
         | None \<Rightarrow> play_create p s1))"

definition playRecording :: "play_platform \<Rightarrow> explore \<Rightarrow> explore" where
  "playRecording p s = last (playRecording_trace p s)"

text \<open>
  The subscriber given to \<^verbatim>\<open>sound.setOnPlaybackStatusUpdate\<close>, for the sound it
  closes over. \<open>None\<close> is a falsy status; \<open>AVPlaybackStatusError\<close> is a status with
  \<^verbatim>\<open>isLoaded: false\<close>; \<open>AVPlaybackStatusSuccess\<close> is a loaded status with its
  \<^verbatim>\<open>didJustFinish\<close> flag. The \<^verbatim>\<open>unloadAsync\<close> it issues is not awaited and its
  rejection is swallowed; \<open>unload_ok\<close> says whether it resolves.
\<close>

datatype AVPlaybackStatus = AVPlaybackStatusError | AVPlaybackStatusSuccess bool

definition onPlaybackStatusUpdate ::
    "handle \<Rightarrow> bool \<Rightarrow> AVPlaybackStatus option \<Rightarrow> explore \<Rightarrow> explore" where
  "onPlaybackStatusUpdate sound unload_ok status s =
     (case status of
        None \<Rightarrow> s
      | Some AVPlaybackStatusError \<Rightarrow> s
      | Some (AVPlaybackStatusSuccess didJustFinish) \<Rightarrow>
          if didJustFinish
          then s\<lparr>isPlaying := False,
                 liveSounds := (if unload_ok then removeAll sound (liveSounds s) else liveSounds s),
                 playbackRef := None\<rparr>
          else s)"

subsection \<open>The two buttons\<close>

text \<open>
  The first \<^verbatim>\<open>Pressable\<close> calls \<^verbatim>\<open>stopRecording\<close> when \<^verbatim>\<open>isRecording\<close> and
  \<^verbatim>\<open>startRecording\<close> otherwise. The second has
  \<^verbatim>\<open>disabled={!recordingUri || isPlaying || loadingPlay}\<close> and calls
  \<^verbatim>\<open>playRecording\<close>; a disabled \<^verbatim>\<open>Pressable\<close> does not call its handler.
\<close>

definition pressRecord :: "start_platform \<Rightarrow> stop_platform \<Rightarrow> explore \<Rightarrow> explore list" where
  "pressRecord p q s = (if isRecording s then stopRecording_trace q s else startRecording_trace p s)"

definition playDisabled :: "explore \<Rightarrow> bool" where
  "playDisabled s = (\<not> truthy (recordingUri s) \<or> isPlaying s \<or> loadingPlay s)"

definition pressPlay :: "play_platform \<Rightarrow> explore \<Rightarrow> explore list" where
  "pressPlay p s = (if playDisabled s then [s] else playRecording_trace p s)"

subsection \<open>Sequences of intents and platform callbacks\<close>

datatype event =
    Start start_platform
  | Stop stop_platform
  | Play play_platform
  | RecordingStatusUpdate RecordingStatus
  | PlaybackStatusUpdate handle bool "AVPlaybackStatus option"

text \<open>
  One event at a time: each operation runs until its promise settles before the next
  event is taken.
\<close>

fun step :: "event \<Rightarrow> explore \<Rightarrow> explore" where
  "step (Start p) s = startRecording p s"
| "step (Stop p) s = stopRecording p s"
| "step (Play p) s = playRecording p s"
| "step (RecordingStatusUpdate status) s = onRecordingStatusUpdate status s"
| "step (PlaybackStatusUpdate sound unload_ok status) s =
     onPlaybackStatusUpdate sound unload_ok status s"

fun run :: "event list \<Rightarrow> explore \<Rightarrow> explore" where
  "run [] s = s"
| "run (e # es) s = run es (step e s)"

subsection \<open>The permission-gated toggle of the second screen\<close>

record app =
  recording :: bool
  granted :: bool
  app_alerts :: "string list"

definition toggleRecording :: "app \<Rightarrow> app" where
  "toggleRecording a =
     (if \<not> granted a then a\<lparr>app_alerts := app_alerts a @ [''Microphone permission required'']\<rparr>
      else a\<lparr>recording := \<not> recording a\<rparr>)"

text \<open>
  The effect run when \<^verbatim>\<open>App\<close> mounts:
  \<^verbatim>\<open>setGranted(status === 'granted')\<close> once \<^verbatim>\<open>requestPermissionsAsync\<close> has
  resolved; a rejection (\<open>None\<close>) leaves the cell as it is.
\<close>

definition initial_app :: app where
  "initial_app = \<lparr>recording = False, granted = False, app_alerts = []\<rparr>"

definition permission_effect :: "PermissionStatus option \<Rightarrow> app \<Rightarrow> app" where
  "permission_effect r a =
     (case r of None \<Rightarrow> a | Some status \<Rightarrow> a\<lparr>granted := (status = GRANTED)\<rparr>)"

subsection \<open>The states of the lifecycle, read off the cells\<close>



text \<open>
  Ownership of the playback slot: the live playback objects are exactly the one held in
  \<^verbatim>\<open>playbackRef\<close>, if any.
\<close>

definition owns :: "explore \<Rightarrow> bool" where
  "owns s = (liveSounds s = (case playbackRef s of None \<Rightarrow> [] | Some h \<Rightarrow> [h]))"

text \<open>
  A playback callback is well-behaved in a state when it belongs to the sound held there
  and the unload it issues resolves.
\<close>

fun well_behaved :: "event \<Rightarrow> explore \<Rightarrow> bool" where
  "well_behaved (PlaybackStatusUpdate sound unload_ok status) s =
     (unload_ok \<and> playbackRef s = Some sound)"
| "well_behaved e s = True"

fun all_well_behaved :: "event list \<Rightarrow> explore \<Rightarrow> bool" where
  "all_well_behaved [] s = True"
| "all_well_behaved (e # es) s = (well_behaved e s \<and> all_well_behaved es (step e s))"

section \<open>Unfolding the operations\<close>

lemmas op_defs =
  startRecording_def startRecording_trace_def start_catch_def start_finally_def
  stopRecording_def stopRecording_trace_def stop_catch_def stop_finally_def
  playRecording_def playRecording_trace_def play_create_def play_catch_def play_finally_def
  Alert_alert_def Let_def

lemmas alert_defs =
  permission_alert_def start_failed_alert_def stop_failed_alert_def playback_failed_alert_def

section \<open>Duration formatting\<close>

lemma digits_small: "n < 10 \<Longrightarrow> digits n = [digit_char n]"
  by (simp add: digits.simps)

lemma digits_two:
  "10 \<le> n \<Longrightarrow> n < 100 \<Longrightarrow> digits n = [digit_char (n div 10), digit_char (n mod 10)]"
  by (subst digits.simps) (simp add: digits_small)

lemma seconds_padded:
  assumes "n < 60"
  shows "padStart 2 ''0'' (toString (int n)) = [digit_char (n div 10), digit_char (n mod 10)]"
proof (cases "n < 10")
  case True
  then show ?thesis
    by (simp add: padStart_def toString_def digits_small digit_char_def)
next
  case False
  with assms have "digits n = [digit_char (n div 10), digit_char (n mod 10)]"
    by (intro digits_two) auto
  then show ?thesis
    by (simp add: padStart_def toString_def)
qed

lemma js_rem_nonneg: "0 \<le> a \<Longrightarrow> js_rem a 60 = a mod 60"
  by (cases "a = 0") (simp_all add: js_rem_def)

lemma formatMillis_nonneg:
  assumes "0 \<le> ms"
  shows "formatMillis ms =
           toString (ms div 60000) @ '':'' @
           [digit_char (nat (ms div 1000 mod 60) div 10),
            digit_char (nat (ms div 1000 mod 60) mod 10)]"
proof -
  let ?t = "ms div 1000"
  have t: "0 \<le> ?t"
    using assms by simp
  have m: "?t div 60 = ms div 60000"
    by (simp add: zdiv_zmult2_eq [symmetric])
  have s: "js_rem ?t 60 = int (nat (?t mod 60))"
    using t by (simp add: js_rem_nonneg)
  have lt: "nat (?t mod 60) < 60"
    by simp
  show ?thesis
    unfolding formatMillis_def Let_def m s seconds_padded [OF lt] ..
qed

text \<open>
  C6. For a duration of \<open>ms\<close> milliseconds, \<open>ms\<close> a safe integer and not
  negative, \<^verbatim>\<open>formatMillis\<close> returns the decimal
  number of whole minutes, a colon, and the remaining whole seconds as exactly two decimal
  digits (a leading zero below ten); and \<^verbatim>\<open>formatMillis(0)\<close> is \<^verbatim>\<open>"0:00"\<close>,
  \<^verbatim>\<open>formatMillis(61000)\<close> is \<^verbatim>\<open>"1:01"\<close>, \<^verbatim>\<open>formatMillis(600000)\<close> is
  \<^verbatim>\<open>"10:00"\<close>.
\<close>

theorem formatMillis_minutes_seconds:
  "(0 \<le> ms \<and> ms \<le> MAX_SAFE_INTEGER \<longrightarrow>
      formatMillis ms =
        toString (ms div 60000) @ '':'' @
        [digit_char (nat (ms div 1000 mod 60) div 10),
         digit_char (nat (ms div 1000 mod 60) mod 10)]) \<and>
   formatMillis 0 = ''0:00'' \<and>
   formatMillis 61000 = ''1:01'' \<and>
   formatMillis 600000 = ''10:00''"
proof (intro conjI impI)
  assume "0 \<le> ms \<and> ms \<le> MAX_SAFE_INTEGER"
  then have "0 \<le> ms" ..
  then show "formatMillis ms =
        toString (ms div 60000) @ '':'' @
        [digit_char (nat (ms div 1000 mod 60) div 10),
         digit_char (nat (ms div 1000 mod 60) mod 10)]"
    by (rule formatMillis_nonneg)
next
  show "formatMillis 0 = ''0:00''"
    using formatMillis_nonneg [of 0]
    by (simp add: toString_def digits_small digit_char_def)
next
  show "formatMillis 61000 = ''1:01''"
    using formatMillis_nonneg [of 61000]
    by (simp add: toString_def digits_small digit_char_def)
next
  show "formatMillis 600000 = ''10:00''"
    using formatMillis_nonneg [of 600000]
    by (simp add: toString_def digits_two digits_small digit_char_def)
qed

theorem formatMillis_minutes_seconds_witness:
  "(0::int) \<le> 754321 \<and> 754321 \<le> MAX_SAFE_INTEGER \<and> formatMillis 754321 = ''12:34''"
  using formatMillis_minutes_seconds [of 754321]
  by (simp add: MAX_SAFE_INTEGER_def toString_def digits_two digits_small digit_char_def)

section \<open>The transient flags\<close>

lemma start_settled: "\<not> isPreparing (startRecording p s)"
  by (simp add: op_defs split: option.splits)

lemma start_loading: "loadingPlay (startRecording p s) = loadingPlay s"
  by (simp add: op_defs split: option.splits)

lemma stop_settled: "\<not> isPreparing (stopRecording p s)"
  by (simp add: op_defs split: option.splits)

lemma stop_loading: "loadingPlay (stopRecording p s) = loadingPlay s"
  by (simp add: op_defs split: option.splits)

lemma play_settled: "\<not> loadingPlay s \<Longrightarrow> \<not> loadingPlay (playRecording p s)"
  by (simp add: op_defs split: option.splits)

lemma play_preparing: "isPreparing (playRecording p s) = isPreparing s"
  by (simp add: op_defs split: option.splits)

lemma step_resting:
  assumes "\<not> isPreparing s" and "\<not> loadingPlay s"
  shows "\<not> isPreparing (step e s) \<and> \<not> loadingPlay (step e s)"
proof (cases e)
  case (Start p)
  with assms show ?thesis by (simp add: start_settled start_loading)
next
  case (Stop p)
  with assms show ?thesis by (simp add: stop_settled stop_loading)
next
  case (Play p)
  with assms show ?thesis by (simp add: play_settled play_preparing)
next
  case (RecordingStatusUpdate status)
  with assms show ?thesis by (simp add: onRecordingStatusUpdate_def)
next
  case (PlaybackStatusUpdate sound unload_ok status)
  with assms show ?thesis
    by (simp add: onPlaybackStatusUpdate_def split: option.splits AVPlaybackStatus.splits)
qed

lemma run_resting:
  "\<not> isPreparing s \<Longrightarrow> \<not> loadingPlay s \<Longrightarrow>
   \<not> isPreparing (run es s) \<and> \<not> loadingPlay (run es s)"
proof (induction es arbitrary: s)
  case Nil
  then show ?case by simp
next
  case (Cons e es)
  from step_resting [OF Cons.prems]
  have "\<not> isPreparing (step e s)" and "\<not> loadingPlay (step e s)"
    by simp_all
  then show ?case
    using Cons.IH by simp
qed

lemma initial_resting: "\<not> isPreparing (run es initial) \<and> \<not> loadingPlay (run es initial)"
  by (rule run_resting) (simp_all add: initial_def)

text \<open>
  C4. After every sequence of intents and callbacks from the initial state, each run to
  settlement, neither transient flag is set; \<^verbatim>\<open>isPreparing\<close> is false in the state
  in which \<^verbatim>\<open>startRecording\<close> and \<^verbatim>\<open>stopRecording\<close> settle, from any state and
  whatever the platform did, and \<^verbatim>\<open>loadingPlay\<close> is false in the state in which
  \<^verbatim>\<open>playRecording\<close> settles after any such sequence.
\<close>

theorem transient_flags_cleared:
  "\<not> isPreparing (run es initial) \<and> \<not> loadingPlay (run es initial) \<and>
   \<not> isPreparing (startRecording p s) \<and>
   \<not> isPreparing (stopRecording q s) \<and>
   \<not> loadingPlay (playRecording r (run es initial))"
  using initial_resting [of es]
  by (simp add: start_settled stop_settled play_settled)

theorem transient_flags_cleared_witness:
  "\<not> isPreparing
       (run [Start \<lparr>requestPermissionsAsync = Some GRANTED, setAudioModeAsync = True,
                    prepareToRecordAsync = True, startAsync = False\<rparr>,
             Stop \<lparr>stopAndUnloadAsync = False, getURI = None\<rparr>] initial) \<and>
   \<not> loadingPlay
       (run [Start \<lparr>requestPermissionsAsync = Some GRANTED, setAudioModeAsync = True,
                    prepareToRecordAsync = True, startAsync = False\<rparr>,
             Stop \<lparr>stopAndUnloadAsync = False, getURI = None\<rparr>] initial) \<and>
   \<not> isPreparing
       (startRecording \<lparr>requestPermissionsAsync = None, setAudioModeAsync = True,
                        prepareToRecordAsync = True, startAsync = True\<rparr> initial) \<and>
   \<not> isPreparing (stopRecording \<lparr>stopAndUnloadAsync = False, getURI = None\<rparr> initial) \<and>
   \<not> loadingPlay
       (playRecording \<lparr>unloadAsync = True, createAsync = False\<rparr>
          (run [Start \<lparr>requestPermissionsAsync = Some GRANTED, setAudioModeAsync = True,
                       prepareToRecordAsync = True, startAsync = False\<rparr>,
                Stop \<lparr>stopAndUnloadAsync = False, getURI = None\<rparr>] initial))"
  by (rule transient_flags_cleared)

section \<open>stopRecording\<close>

text \<open>
  C9. In every state reached from the initial state by a sequence of intents and
  callbacks in which no recording handle is held, \<^verbatim>\<open>stopRecording\<close> settles at once in
  that same state: no cell changes and no alert is raised.
\<close>

theorem stop_without_handle_is_noop:
  "recordingRef (run es initial) = None \<Longrightarrow>
   stopRecording_trace p (run es initial) = [run es initial] \<and>
   stopRecording p (run es initial) = run es initial"
  using initial_resting [of es] by (simp add: op_defs)

theorem stop_without_handle_is_noop_witness:
  "recordingRef
     (run [Start \<lparr>requestPermissionsAsync = Some DENIED, setAudioModeAsync = True,
                  prepareToRecordAsync = True, startAsync = True\<rparr>] initial) = None \<and>
   stopRecording \<lparr>stopAndUnloadAsync = True, getURI = Some ''file:///rec.m4a''\<rparr>
     (run [Start \<lparr>requestPermissionsAsync = Some DENIED, setAudioModeAsync = True,
                  prepareToRecordAsync = True, startAsync = True\<rparr>] initial) =
   initial\<lparr>alerts := [permission_alert]\<rparr>"
proof -
  let ?es = "[Start \<lparr>requestPermissionsAsync = Some DENIED, setAudioModeAsync = True,
                     prepareToRecordAsync = True, startAsync = True\<rparr>]"
  have h: "recordingRef (run ?es initial) = None"
    by (simp add: op_defs initial_def)
  from stop_without_handle_is_noop [OF h] show ?thesis
    using h by (simp add: op_defs initial_def)
qed

text \<open>
  C1 as stated fails twice. After a successful start, a \<^verbatim>\<open>stopRecording\<close> whose
  \<^verbatim>\<open>stopAndUnloadAsync\<close> rejects leaves \<^verbatim>\<open>isRecording\<close> true and the handle in
  \<^verbatim>\<open>recordingRef\<close>; and one whose \<^verbatim>\<open>stopAndUnloadAsync\<close> resolves while
  \<^verbatim>\<open>getURI\<close> returns \<^verbatim>\<open>null\<close> leaves \<^verbatim>\<open>recordingUri\<close> null.
\<close>

theorem stop_outcome_counterexample:
  "isRecording
     (stopRecording \<lparr>stopAndUnloadAsync = False, getURI = Some ''file:///rec.m4a''\<rparr>
        (startRecording \<lparr>requestPermissionsAsync = Some GRANTED, setAudioModeAsync = True,
                         prepareToRecordAsync = True, startAsync = True\<rparr> initial)) \<and>
   recordingRef
     (stopRecording \<lparr>stopAndUnloadAsync = False, getURI = Some ''file:///rec.m4a''\<rparr>
        (startRecording \<lparr>requestPermissionsAsync = Some GRANTED, setAudioModeAsync = True,
                         prepareToRecordAsync = True, startAsync = True\<rparr> initial)) = Some 0 \<and>
   recordingUri
     (stopRecording \<lparr>stopAndUnloadAsync = True, getURI = None\<rparr>
        (startRecording \<lparr>requestPermissionsAsync = Some GRANTED, setAudioModeAsync = True,
                         prepareToRecordAsync = True, startAsync = True\<rparr> initial)) = None"
  by (simp add: op_defs initial_def)

text \<open>
  C1, amended. For every call of \<^verbatim>\<open>stopRecording\<close> that holds a recording handle: if
  \<^verbatim>\<open>stopAndUnloadAsync\<close> resolves, the call settles with \<^verbatim>\<open>isRecording\<close> false,
  the handle dropped, \<^verbatim>\<open>isPreparing\<close> false and \<^verbatim>\<open>recordingUri\<close> set to what
  \<^verbatim>\<open>getURI\<close> returned (null when it returned none); if it rejects, the call settles
  with the stop-failure alert raised and \<^verbatim>\<open>isPreparing\<close> false, and
  \<^verbatim>\<open>isRecording\<close>, \<^verbatim>\<open>recordingUri\<close> and the handle are as they were. Nothing
  else changes in either case.
\<close>

theorem stop_outcome:
  "recordingRef s = Some h \<Longrightarrow>
   (stopAndUnloadAsync p \<longrightarrow>
      stopRecording p s =
        s\<lparr>recordingUri := getURI p, isRecording := False, recordingRef := None,
          isPreparing := False\<rparr>) \<and>
   (\<not> stopAndUnloadAsync p \<longrightarrow>
      stopRecording p s = s\<lparr>alerts := alerts s @ [stop_failed_alert], isPreparing := False\<rparr>)"
  by (simp add: op_defs)

theorem stop_outcome_witness:
  "recordingRef (initial\<lparr>isRecording := True, recordingRef := Some 0, nextHandle := 1\<rparr>) = Some 0 \<and>
   stopRecording \<lparr>stopAndUnloadAsync = True, getURI = Some ''file:///rec.m4a''\<rparr>
     (initial\<lparr>isRecording := True, recordingRef := Some 0, nextHandle := 1\<rparr>) =
   initial\<lparr>recordingUri := Some ''file:///rec.m4a'', nextHandle := 1\<rparr> \<and>
   stopRecording \<lparr>stopAndUnloadAsync = False, getURI = Some ''file:///rec.m4a''\<rparr>
     (initial\<lparr>isRecording := True, recordingRef := Some 0, nextHandle := 1\<rparr>) =
   initial\<lparr>isRecording := True, recordingRef := Some 0, nextHandle := 1,
           alerts := [stop_failed_alert]\<rparr>"
proof -
  let ?s = "initial\<lparr>isRecording := True, recordingRef := Some 0, nextHandle := 1\<rparr>"
  have h: "recordingRef ?s = Some 0"
    by simp
  from stop_outcome [OF h, of "\<lparr>stopAndUnloadAsync = True, getURI = Some ''file:///rec.m4a''\<rparr>"]
       stop_outcome [OF h, of "\<lparr>stopAndUnloadAsync = False, getURI = Some ''file:///rec.m4a''\<rparr>"]
  show ?thesis
    by (simp add: initial_def)
qed

section \<open>startRecording\<close>

text \<open>
  C2 as stated fails: when \<^verbatim>\<open>prepareToRecordAsync\<close> rejects, the recording object
  created just before it is still in \<^verbatim>\<open>recordingRef\<close> once the call has settled
  (with the start-failure alert raised and \<^verbatim>\<open>isPreparing\<close> false).
\<close>

theorem start_failure_counterexample:
  "recordingRef
     (startRecording \<lparr>requestPermissionsAsync = Some GRANTED, setAudioModeAsync = True,
                      prepareToRecordAsync = False, startAsync = True\<rparr> initial) = Some 0 \<and>
   alerts
     (startRecording \<lparr>requestPermissionsAsync = Some GRANTED, setAudioModeAsync = True,
                      prepareToRecordAsync = False, startAsync = True\<rparr> initial) =
     [start_failed_alert] \<and>
   \<not> isPreparing
     (startRecording \<lparr>requestPermissionsAsync = Some GRANTED, setAudioModeAsync = True,
                      prepareToRecordAsync = False, startAsync = True\<rparr> initial)"
  by (simp add: op_defs initial_def)

text \<open>
  C2, amended. For every call of \<^verbatim>\<open>startRecording\<close> with permission granted in which
  \<^verbatim>\<open>setAudioModeAsync\<close>, \<^verbatim>\<open>prepareToRecordAsync\<close> or \<^verbatim>\<open>startAsync\<close>
  rejects, the call settles with \<^verbatim>\<open>isPreparing\<close> false, \<^verbatim>\<open>isRecording\<close> as it
  was and the start-failure alert raised, and no handle is released: when
  \<^verbatim>\<open>setAudioModeAsync\<close> rejects none was acquired and \<^verbatim>\<open>recordingRef\<close> is as it
  was; when \<^verbatim>\<open>prepareToRecordAsync\<close> or \<^verbatim>\<open>startAsync\<close> rejects the recording
  object created by this call stays in \<^verbatim>\<open>recordingRef\<close>. Nothing else changes.
\<close>

theorem start_failure_outcome:
  "requestPermissionsAsync p = Some GRANTED \<Longrightarrow>
   (\<not> setAudioModeAsync p \<longrightarrow>
      startRecording p s = s\<lparr>isPreparing := False, alerts := alerts s @ [start_failed_alert]\<rparr>) \<and>
   (setAudioModeAsync p \<and> (\<not> prepareToRecordAsync p \<or> \<not> startAsync p) \<longrightarrow>
      startRecording p s =
        s\<lparr>isPreparing := False, alerts := alerts s @ [start_failed_alert],
          recordingRef := Some (nextHandle s), nextHandle := Suc (nextHandle s)\<rparr>)"
  by (auto simp add: op_defs)

theorem start_failure_outcome_witness:
  "requestPermissionsAsync
     \<lparr>requestPermissionsAsync = Some GRANTED, setAudioModeAsync = False,
      prepareToRecordAsync = True, startAsync = True\<rparr> = Some GRANTED \<and>
   startRecording \<lparr>requestPermissionsAsync = Some GRANTED, setAudioModeAsync = False,
                   prepareToRecordAsync = True, startAsync = True\<rparr> initial =
     initial\<lparr>alerts := [start_failed_alert]\<rparr> \<and>
   startRecording \<lparr>requestPermissionsAsync = Some GRANTED, setAudioModeAsync = True,
                   prepareToRecordAsync = True, startAsync = False\<rparr> initial =
     initial\<lparr>alerts := [start_failed_alert], recordingRef := Some 0, nextHandle := 1\<rparr>"
  using
    start_failure_outcome
      [of "\<lparr>requestPermissionsAsync = Some GRANTED, setAudioModeAsync = False,
            prepareToRecordAsync = True, startAsync = True\<rparr>" initial]
    start_failure_outcome
      [of "\<lparr>requestPermissionsAsync = Some GRANTED, setAudioModeAsync = True,
            prepareToRecordAsync = True, startAsync = False\<rparr>" initial]
  by (simp add: initial_def)

text \<open>
  C5 as stated fails: with permission denied, \<^verbatim>\<open>startRecording\<close> has already set
  \<^verbatim>\<open>isPreparing\<close> when it suspends on the permission request, so the screen is in
  \<open>Preparing\<close> (status text and spinner) until the request resolves.
\<close>

theorem permission_denied_counterexample:
  "isPreparing
     (hd (startRecording_trace
            \<lparr>requestPermissionsAsync = Some DENIED, setAudioModeAsync = True,
             prepareToRecordAsync = True, startAsync = True\<rparr> initial))"
  by (simp add: op_defs)

text \<open>
  C5, amended. For every call of \<^verbatim>\<open>startRecording\<close> whose permission request
  resolves to a status other than granted, the states the call goes through are exactly
  two: the state it was called in with \<^verbatim>\<open>isPreparing\<close> set, while the permission
  request is pending, and the settled state, which is the state it was called in with
  \<^verbatim>\<open>isPreparing\<close> false and the permission alert raised. So no recording handle is
  acquired, \<^verbatim>\<open>isRecording\<close> stays as it was, and called with \<^verbatim>\<open>isPreparing\<close>
  false the call changes nothing but the alerts. On the second screen
  \<^verbatim>\<open>toggleRecording\<close> without the grant changes nothing but its alert.
\<close>

theorem permission_denied_outcome:
  "requestPermissionsAsync p = Some status \<Longrightarrow> status \<noteq> GRANTED \<Longrightarrow>
   startRecording_trace p s =
     [s\<lparr>isPreparing := True\<rparr>,
      s\<lparr>isPreparing := False, alerts := alerts s @ [permission_alert]\<rparr>] \<and>
   (\<not> isPreparing s \<longrightarrow> startRecording p s = s\<lparr>alerts := alerts s @ [permission_alert]\<rparr>) \<and>
   toggleRecording (permission_effect (Some status) a) =
     (permission_effect (Some status) a)
       \<lparr>app_alerts := app_alerts a @ [''Microphone permission required'']\<rparr>"
  by (simp add: op_defs toggleRecording_def permission_effect_def)

theorem permission_denied_outcome_witness:
  "requestPermissionsAsync
     \<lparr>requestPermissionsAsync = Some UNDETERMINED, setAudioModeAsync = True,
      prepareToRecordAsync = True, startAsync = True\<rparr> = Some UNDETERMINED \<and>
   UNDETERMINED \<noteq> GRANTED \<and> \<not> isPreparing initial \<and>
   startRecording \<lparr>requestPermissionsAsync = Some UNDETERMINED, setAudioModeAsync = True,
                   prepareToRecordAsync = True, startAsync = True\<rparr> initial =
     initial\<lparr>alerts := [permission_alert]\<rparr> \<and>
   toggleRecording (permission_effect (Some UNDETERMINED) initial_app) =
     initial_app\<lparr>app_alerts := [''Microphone permission required'']\<rparr>"
  using
    permission_denied_outcome
      [of "\<lparr>requestPermissionsAsync = Some UNDETERMINED, setAudioModeAsync = True,
            prepareToRecordAsync = True, startAsync = True\<rparr>" UNDETERMINED initial initial_app]
  by (simp add: initial_def initial_app_def permission_effect_def)

section \<open>playRecording\<close>

text \<open>
  C10. Called while \<^verbatim>\<open>recordingUri\<close> is null, \<^verbatim>\<open>playRecording\<close> settles at once
  in the state it was called in: it reaches no suspension point, so \<^verbatim>\<open>loadingPlay\<close>
  is never set, and no cell, alert, live playback object or handle counter changes.
\<close>

theorem play_without_file_returns_immediately:
  "recordingUri s = None \<Longrightarrow> playRecording_trace p s = [s] \<and> playRecording p s = s"
  by (simp add: op_defs truthy_def)

theorem play_without_file_returns_immediately_witness:
  "recordingUri (initial\<lparr>playbackRef := Some 3, liveSounds := [3], nextHandle := 4\<rparr>) = None \<and>
   playRecording_trace \<lparr>unloadAsync = True, createAsync = True\<rparr>
     (initial\<lparr>playbackRef := Some 3, liveSounds := [3], nextHandle := 4\<rparr>) =
   [initial\<lparr>playbackRef := Some 3, liveSounds := [3], nextHandle := 4\<rparr>]"
proof -
  let ?s = "initial\<lparr>playbackRef := Some 3, liveSounds := [3], nextHandle := 4\<rparr>"
  have h: "recordingUri ?s = None"
    by (simp add: initial_def)
  from play_without_file_returns_immediately [OF h] show ?thesis
    using h by simp
qed

text \<open>
  C3. The play intent is a press of the Play button, the only place from which
  \<^verbatim>\<open>playRecording\<close> is called. In every state in which \<^verbatim>\<open>isPlaying\<close> or
  \<^verbatim>\<open>loadingPlay\<close> is true the button is disabled and the press does nothing: it
  settles at once in the state it was made in, so no cell changes and no playback handle
  is created.
\<close>

theorem pressPlay_guarded:
  "isPlaying s \<or> loadingPlay s \<Longrightarrow> playDisabled s \<and> pressPlay p s = [s]"
  by (auto simp add: pressPlay_def playDisabled_def)

theorem pressPlay_guarded_witness:
  "(isPlaying (initial\<lparr>recordingUri := Some ''file:///rec.m4a'', isPlaying := True,
                       playbackRef := Some 1, liveSounds := [1], nextHandle := 2\<rparr>) \<or>
    loadingPlay (initial\<lparr>recordingUri := Some ''file:///rec.m4a'', isPlaying := True,
                         playbackRef := Some 1, liveSounds := [1], nextHandle := 2\<rparr>)) \<and>
   pressPlay \<lparr>unloadAsync = True, createAsync = True\<rparr>
     (initial\<lparr>recordingUri := Some ''file:///rec.m4a'', isPlaying := True,
              playbackRef := Some 1, liveSounds := [1], nextHandle := 2\<rparr>) =
   [initial\<lparr>recordingUri := Some ''file:///rec.m4a'', isPlaying := True,
            playbackRef := Some 1, liveSounds := [1], nextHandle := 2\<rparr>]"
proof -
  let ?s = "initial\<lparr>recordingUri := Some ''file:///rec.m4a'', isPlaying := True,
                    playbackRef := Some 1, liveSounds := [1], nextHandle := 2\<rparr>"
  have h: "isPlaying ?s \<or> loadingPlay ?s"
    by simp
  from pressPlay_guarded [OF h] show ?thesis
    using h by simp
qed

text \<open>
  Ownership of the playback slot holds initially and is kept by every event whose
  playback callback is well-behaved.
\<close>

lemma owns_initial: "owns initial"
  by (simp add: owns_def initial_def)

lemma owns_play: "owns s \<Longrightarrow> owns (playRecording p s)"
  by (auto simp add: op_defs owns_def split: option.splits)

lemma owns_step: "owns s \<Longrightarrow> well_behaved e s \<Longrightarrow> owns (step e s)"
proof (cases e)
  case (Start p)
  assume "owns s"
  with Start show ?thesis
    by (simp add: op_defs owns_def split: option.splits)
next
  case (Stop p)
  assume "owns s"
  with Stop show ?thesis
    by (simp add: op_defs owns_def split: option.splits)
next
  case (Play p)
  assume "owns s"
  with Play show ?thesis
    by (simp add: owns_play)
next
  case (RecordingStatusUpdate status)
  assume "owns s"
  with RecordingStatusUpdate show ?thesis
    by (simp add: onRecordingStatusUpdate_def owns_def)
next
  case (PlaybackStatusUpdate sound unload_ok status)
  assume "owns s" and "well_behaved e s"
  with PlaybackStatusUpdate show ?thesis
    by (simp add: onPlaybackStatusUpdate_def owns_def
             split: option.splits AVPlaybackStatus.splits)
qed

lemma owns_run: "owns s \<Longrightarrow> all_well_behaved es s \<Longrightarrow> owns (run es s)"
  by (induction es arbitrary: s) (simp_all add: owns_step)

text \<open>
  C8 as stated fails. The finish callback issues its unload without awaiting it, swallows
  a rejection and empties \<^verbatim>\<open>playbackRef\<close> all the same. After start, stop and play
  have succeeded and the finish callback of the playing sound has had its unload
  rejected, that sound is still live and no longer held; the Play button is enabled, and
  the press creates a second sound beside it.
\<close>

theorem play_single_live_handle_counterexample:
  "\<not> playDisabled
       (run [Start \<lparr>requestPermissionsAsync = Some GRANTED, setAudioModeAsync = True,
                    prepareToRecordAsync = True, startAsync = True\<rparr>,
             Stop \<lparr>stopAndUnloadAsync = True, getURI = Some ''file:///rec.m4a''\<rparr>,
             Play \<lparr>unloadAsync = True, createAsync = True\<rparr>,
             PlaybackStatusUpdate 1 False (Some (AVPlaybackStatusSuccess True))] initial) \<and>
   map liveSounds
     (pressPlay \<lparr>unloadAsync = True, createAsync = True\<rparr>
        (run [Start \<lparr>requestPermissionsAsync = Some GRANTED, setAudioModeAsync = True,
                     prepareToRecordAsync = True, startAsync = True\<rparr>,
              Stop \<lparr>stopAndUnloadAsync = True, getURI = Some ''file:///rec.m4a''\<rparr>,
              Play \<lparr>unloadAsync = True, createAsync = True\<rparr>,
              PlaybackStatusUpdate 1 False (Some (AVPlaybackStatusSuccess True))] initial)) =
     [ [1], [1, 2] ]"
  by (simp add: op_defs initial_def truthy_def onPlaybackStatusUpdate_def pressPlay_def
        playDisabled_def)

text \<open>
  C8, amended. Called in a state in which the live playback objects are exactly the one
  held in \<^verbatim>\<open>playbackRef\<close> (if any), \<^verbatim>\<open>playRecording\<close> has at most one live playback
  object at each of its suspension points and when it settles, and the slot is owned
  again throughout. With a file present and a sound \<open>h\<close> held: if the unload and the
  creation resolve, the live objects are \<open>h\<close> while the unload is awaited, none while
  the creation is awaited, and the new one when the call settles; if the unload rejects,
  nothing is created and \<open>h\<close> stays the one live object.
\<close>

theorem play_single_live_handle:
  "owns s \<Longrightarrow>
   (\<forall>t \<in> set (playRecording_trace p s). length (liveSounds t) \<le> 1 \<and> owns t) \<and>
   (truthy (recordingUri s) \<and> playbackRef s = Some h \<and> unloadAsync p \<and> createAsync p \<longrightarrow>
      map liveSounds (playRecording_trace p s) = [ [h], [], [nextHandle s] ]) \<and>
   (truthy (recordingUri s) \<and> playbackRef s = Some h \<and> \<not> unloadAsync p \<longrightarrow>
      map liveSounds (playRecording_trace p s) = [ [h], [h] ] \<and>
      nextHandle (playRecording p s) = nextHandle s)"
  by (auto simp add: op_defs owns_def split: option.splits if_splits)

theorem play_single_live_handle_witness:
  "owns (initial\<lparr>recordingUri := Some ''file:///rec.m4a'', playbackRef := Some 1,
                 liveSounds := [1], nextHandle := 2\<rparr>) \<and>
   map liveSounds
     (playRecording_trace \<lparr>unloadAsync = True, createAsync = True\<rparr>
        (initial\<lparr>recordingUri := Some ''file:///rec.m4a'', playbackRef := Some 1,
                 liveSounds := [1], nextHandle := 2\<rparr>)) = [ [1], [], [2] ] \<and>
   map liveSounds
     (playRecording_trace \<lparr>unloadAsync = False, createAsync = True\<rparr>
        (initial\<lparr>recordingUri := Some ''file:///rec.m4a'', playbackRef := Some 1,
                 liveSounds := [1], nextHandle := 2\<rparr>)) = [ [1], [1] ]"
proof -
  let ?s = "initial\<lparr>recordingUri := Some ''file:///rec.m4a'', playbackRef := Some 1,
                    liveSounds := [1], nextHandle := 2\<rparr>"
  have h: "owns ?s"
    by (simp add: owns_def)
  from play_single_live_handle [OF h, of "\<lparr>unloadAsync = True, createAsync = True\<rparr>" 1]
       play_single_live_handle [OF h, of "\<lparr>unloadAsync = False, createAsync = True\<rparr>" 1]
  show ?thesis
    using h by (simp add: truthy_def)
qed



end
